theory Spec2Isabelle
  imports Complex_Main
begin

section \<open>The FoxImage component\<close>

text \<open>
  The component under study is the final \<^verbatim>\<open>FoxImage\<close> function of the lesson:
  two \<^verbatim>\<open>useState\<close> cells (\<^verbatim>\<open>image\<close>, \<^verbatim>\<open>loading\<close>), the function
  \<^verbatim>\<open>fetchNewImage\<close>, the effect \<^verbatim>\<open>useEffect(fetchNewImage, [])\<close> and the JSX it
  returns. The embedding is a state machine: the component's cells and the part of
  the environment it talks to (network, console) form one record, and every event
  the browser can deliver (a render, a click on the button, the settling of a
  request) is a function on that record.
\<close>

subsection \<open>JavaScript values\<close>

text \<open>
  What \<^verbatim>\<open>response.json()\<close> can produce. A JSON number is a finite double, hence a
  real; the component never computes with it. An object is the list of its own
  properties, each key once.
\<close>

datatype jsonv =
    JNull
  | JBool bool
  | JNum real
  | JStr string
  | JArr "jsonv list"
  | JObj "(string \<times> jsonv) list"

text \<open>JavaScript values as far as the component sees them: \<^verbatim>\<open>undefined\<close> or a JSON value.\<close>

datatype jsval = Undefined | Val jsonv

text \<open>
  The values that can reach \<^verbatim>\<open>.catch\<close>: the \<^verbatim>\<open>Error\<close> the first callback throws,
  the \<^verbatim>\<open>TypeError\<close> of a failed \<^verbatim>\<open>fetch\<close> or of a property read on \<^verbatim>\<open>null\<close>, the
  \<^verbatim>\<open>SyntaxError\<close> of a body that is not JSON.
\<close>

datatype js_error = Error string | TypeError | SyntaxError

text \<open>
  The expression \<^verbatim>\<open>data.image\<close>: reading a property of \<^verbatim>\<open>null\<close> throws; an object
  yields its own property of that name, or \<^verbatim>\<open>undefined\<close> when it has none; booleans,
  numbers, strings and arrays have no property \<^verbatim>\<open>image\<close>.
\<close>

fun data_image :: "jsonv \<Rightarrow> js_error + jsval" where
  "data_image JNull = Inl TypeError"
| "data_image (JObj props) =
     (case map_of props ''image'' of None \<Rightarrow> Inr Undefined | Some v \<Rightarrow> Inr (Val v))"
| "data_image (JBool b) = Inr Undefined"
| "data_image (JNum n) = Inr Undefined"
| "data_image (JStr s) = Inr Undefined"
| "data_image (JArr xs) = Inr Undefined"

subsection \<open>The network\<close>

text \<open>
  A response as the component reads it: the \<^verbatim>\<open>ok\<close> flag and what \<^verbatim>\<open>response.json()\<close>
  settles to. The promise of \<^verbatim>\<open>fetch\<close> is either rejected or fulfilled with a
  response.
\<close>

record response =
  ok :: bool
  json :: "js_error + jsonv"

datatype outcome = Rejected js_error | Fulfilled response

definition API_URL :: string where
  "API_URL = ''https://randomfox.ca/floof/''"

subsection \<open>State\<close>

text \<open>
  Everything a call of the component's code can do is logged in order: the two
  setters, the network call, the console, and the run of the effect callback.
\<close>

datatype action =
    SetImage jsval
  | SetLoading bool
  | Fetch string
  | ConsoleLog js_error
  | RunEffect

text \<open>
  \<open>image_st\<close> and \<open>loading\<close> are the two state cells. \<open>effect_deps\<close> is React's memory
  of the dependency array of the last committed effect (\<open>None\<close> before the first
  render). \<open>pending\<close> holds the requests in flight; a request is named by its
  position among the network calls made so far.
\<close>

record world =
  image_st :: jsval
  loading :: bool
  effect_deps :: "jsval list option"
  pending :: "nat list"
  trace :: "action list"

fun requests_of :: "action list \<Rightarrow> string list" where
  "requests_of [] = []"
| "requests_of (Fetch u # as) = u # requests_of as"
| "requests_of (a # as) = requests_of as"

fun console_of :: "action list \<Rightarrow> js_error list" where
  "console_of [] = []"
| "console_of (ConsoleLog e # as) = e # console_of as"
| "console_of (a # as) = console_of as"

fun effects_of :: "action list \<Rightarrow> nat" where
  "effects_of [] = 0"
| "effects_of (RunEffect # as) = Suc (effects_of as)"
| "effects_of (a # as) = effects_of as"

definition requests :: "world \<Rightarrow> string list" where
  "requests w = requests_of (trace w)"

definition console :: "world \<Rightarrow> js_error list" where
  "console w = console_of (trace w)"

definition effect_runs :: "world \<Rightarrow> nat" where
  "effect_runs w = effects_of (trace w)"

text \<open>
  \<^verbatim>\<open>useState(foxLogo)\<close> and \<^verbatim>\<open>useState(true)\<close>: the cells as the component is
  instantiated. \<open>foxLogo\<close> is the URL of the bundled asset.
\<close>

definition instantiate :: "string \<Rightarrow> world" where
  "instantiate foxLogo =
     \<lparr>image_st = Val (JStr foxLogo), loading = True, effect_deps = None,
      pending = [], trace = []\<rparr>"

subsection \<open>Operations\<close>

definition setImage :: "jsval \<Rightarrow> world \<Rightarrow> world" where
  "setImage v w = w\<lparr>image_st := v, trace := trace w @ [SetImage v]\<rparr>"

definition setLoading :: "bool \<Rightarrow> world \<Rightarrow> world" where
  "setLoading b w = w\<lparr>loading := b, trace := trace w @ [SetLoading b]\<rparr>"

definition fetch :: "string \<Rightarrow> world \<Rightarrow> world" where
  "fetch url w =
     w\<lparr>pending := pending w @ [length (requests w)], trace := trace w @ [Fetch url]\<rparr>"

definition console_log :: "js_error \<Rightarrow> world \<Rightarrow> world" where
  "console_log e w = w\<lparr>trace := trace w @ [ConsoleLog e]\<rparr>"

text \<open>
  A setter writes its cell at once: the state a later render or callback sees is
  the one the setters left, which is all that the statements below observe.

  \<^verbatim>\<open>fetchNewImage\<close> up to the point where it returns: the flag is set, the request
  leaves. The three callbacks run when the request settles.
\<close>

definition fetchNewImage :: "world \<Rightarrow> world" where
  "fetchNewImage w = fetch API_URL (setLoading True w)"

text \<open>First callback: \<^verbatim>\<open>if (!response.ok) throw ...; return response.json()\<close>.\<close>

definition then1 :: "response \<Rightarrow> js_error + jsonv" where
  "then1 r = (if \<not> ok r then Inl (Error ''Failed to fetch image'') else json r)"

text \<open>
  Second callback: \<^verbatim>\<open>setImage(data.image); setLoading(false)\<close>. The argument
  \<^verbatim>\<open>data.image\<close> is evaluated before \<^verbatim>\<open>setImage\<close> is called, so a throw there
  leaves both cells alone.
\<close>

definition then2 :: "jsonv \<Rightarrow> world \<Rightarrow> js_error + world" where
  "then2 data w =
     (case data_image data of
        Inl e \<Rightarrow> Inl e
      | Inr v \<Rightarrow> Inr (setLoading False (setImage v w)))"

text \<open>
  The chain \<^verbatim>\<open>fetch(API_URL).then(...).then(...).catch(error => console.log(error))\<close>
  as the request settles: a rejection, or a throw in either callback, ends in the
  handler.
\<close>

definition settle :: "outcome \<Rightarrow> world \<Rightarrow> world" where
  "settle out w =
     (case out of
        Rejected e \<Rightarrow> console_log e w
      | Fulfilled r \<Rightarrow>
          (case then1 r of
             Inl e \<Rightarrow> console_log e w
           | Inr data \<Rightarrow>
               (case then2 data w of
                  Inl e \<Rightarrow> console_log e w
                | Inr w' \<Rightarrow> w')))"

text \<open>
  The same chain without the state: the error that reaches \<^verbatim>\<open>.catch\<close>, or the value
  that reaches \<^verbatim>\<open>setImage\<close>.
\<close>

definition chain :: "outcome \<Rightarrow> js_error + jsval" where
  "chain out =
     (case out of
        Rejected e \<Rightarrow> Inl e
      | Fulfilled r \<Rightarrow>
          (case then1 r of
             Inl e \<Rightarrow> Inl e
           | Inr data \<Rightarrow> data_image data))"

text \<open>
  \<^verbatim>\<open>useEffect(effect, deps)\<close>: the callback runs after the first render, and after
  a later render only when the dependency array differs from the previous one.
\<close>

definition useEffect :: "(world \<Rightarrow> world) \<Rightarrow> jsval list \<Rightarrow> world \<Rightarrow> world" where
  "useEffect effect deps w =
     (if effect_deps w = Some deps then w
      else effect (w\<lparr>effect_deps := Some deps, trace := trace w @ [RunEffect]\<rparr>))"

text \<open>One execution of the component function: \<^verbatim>\<open>useEffect(fetchNewImage, [])\<close>.\<close>

definition FoxImage :: "world \<Rightarrow> world" where
  "FoxImage w = useEffect fetchNewImage [] w"

subsection \<open>Events\<close>

text \<open>
  The browser renders the component, the user clicks the button (which exists once
  the component has rendered), and a request in flight settles, once.
\<close>

datatype event = Render | Click | Settle nat outcome

fun step :: "event \<Rightarrow> world \<Rightarrow> world" where
  "step Render w = FoxImage w"
| "step Click w = (if effect_deps w = None then w else fetchNewImage w)"
| "step (Settle rid out) w =
     (if rid \<in> set (pending w) then settle out (w\<lparr>pending := removeAll rid (pending w)\<rparr>)
      else w)"

fun run :: "event list \<Rightarrow> world \<Rightarrow> world" where
  "run [] w = w"
| "run (e # es) w = run es (step e w)"

text \<open>An event that writes the image cell: a settling whose chain does not throw.\<close>

fun succeeds :: "event \<Rightarrow> bool" where
  "succeeds (Settle rid out) = (case chain out of Inl e \<Rightarrow> False | Inr v \<Rightarrow> True)"
| "succeeds Render = False"
| "succeeds Click = False"

fun is_settle :: "event \<Rightarrow> bool" where
  "is_settle (Settle rid out) = True"
| "is_settle Render = False"
| "is_settle Click = False"

subsection \<open>What is rendered\<close>

datatype handler = FetchNewImage

datatype attr = AStr string | AVal jsval | AHandler handler

datatype vnode = VText string | VElem string "(string \<times> attr) list" "vnode list"

fun children :: "vnode \<Rightarrow> vnode list" where
  "children (VElem tag props cs) = cs"
| "children (VText s) = []"

text \<open>The JSX the component returns, from the two cells.\<close>

definition view :: "jsval \<Rightarrow> bool \<Rightarrow> vnode" where
  "view src loading' =
     VElem ''div'' []
       [VElem ''p'' [] [VText ''Learn more about us!''],
        (if loading' then VText '''' else VElem ''p'' [] [VText '' Loading...'']),
        VElem ''img'' [(''src'', AVal src), (''alt'', AStr ''A Random Fox'')] [],
        VElem ''button'' [(''onClick'', AHandler FetchNewImage)] [VText ''Get New Fox'']]"

definition render :: "world \<Rightarrow> vnode" where
  "render w = view (image_st w) (loading w)"

subsection \<open>Scenarios\<close>

text \<open>
  One whole invocation with nothing in between: \<^verbatim>\<open>fetchNewImage\<close> is called and the
  request it made is fulfilled with \<open>r\<close>.
\<close>

definition invocation :: "response \<Rightarrow> world \<Rightarrow> world" where
  "invocation r w = step (Settle (length (requests w)) (Fulfilled r)) (fetchNewImage w)"

text \<open>An event that, if it is a settling, is a fulfilment with the response \<open>r\<close>.\<close>

fun carries :: "response \<Rightarrow> event \<Rightarrow> bool" where
  "carries r (Settle rid out) = (out = Fulfilled r)"
| "carries r Render = True"
| "carries r Click = True"

text \<open>Two responses of the endpoint: \<^verbatim>\<open>{"image": url}\<close> with status 200, and a status 500.\<close>

definition ok_response :: "string \<Rightarrow> response" where
  "ok_response url = \<lparr>ok = True, json = Inr (JObj [(''image'', JStr url)])\<rparr>"

definition http_500 :: response where
  "http_500 = \<lparr>ok = False, json = Inl SyntaxError\<rparr>"

section \<open>Basic facts\<close>

lemma requests_of_append: "requests_of (xs @ ys) = requests_of xs @ requests_of ys"
  by (induction xs rule: requests_of.induct) simp_all

lemma console_of_append: "console_of (xs @ ys) = console_of xs @ console_of ys"
  by (induction xs rule: console_of.induct) simp_all

lemma effects_of_append: "effects_of (xs @ ys) = effects_of xs + effects_of ys"
  by (induction xs rule: effects_of.induct) simp_all

lemmas eval_defs =
  ok_response_def http_500_def instantiate_def requests_def console_def effect_runs_def
  fetchNewImage_def fetch_def setLoading_def setImage_def console_log_def
  FoxImage_def useEffect_def settle_def then1_def then2_def chain_def API_URL_def

subsection \<open>The promise chain\<close>

text \<open>The chain writes the cells when it ends in a value and logs when it ends in an error.\<close>

lemma settle_chain:
  "settle out w =
     (case chain out of Inl e \<Rightarrow> console_log e w | Inr v \<Rightarrow> setLoading False (setImage v w))"
  by (simp add: settle_def chain_def then2_def split: outcome.split sum.split)

lemma chain_image:
  "ok r \<Longrightarrow> json r = Inr (JObj props) \<Longrightarrow> map_of props ''image'' = Some x \<Longrightarrow>
   chain (Fulfilled r) = Inr (Val x)"
  by (simp add: chain_def then1_def)

lemma chain_no_image:
  "ok r \<Longrightarrow> json r = Inr (JObj props) \<Longrightarrow> map_of props ''image'' = None \<Longrightarrow>
   chain (Fulfilled r) = Inr Undefined"
  by (simp add: chain_def then1_def)

text \<open>The three ways to the handler, and a fourth: a body that is the JSON \<^verbatim>\<open>null\<close>.\<close>

lemma chain_network_failure: "chain (Rejected e) = Inl e"
  by (simp add: chain_def)

lemma chain_bad_status: "\<not> ok r \<Longrightarrow> chain (Fulfilled r) = Inl (Error ''Failed to fetch image'')"
  by (simp add: chain_def then1_def)

lemma chain_parse_failure: "ok r \<Longrightarrow> json r = Inl e \<Longrightarrow> chain (Fulfilled r) = Inl e"
  by (simp add: chain_def then1_def)

lemma chain_null_body: "ok r \<Longrightarrow> json r = Inr JNull \<Longrightarrow> chain (Fulfilled r) = Inl TypeError"
  by (simp add: chain_def then1_def)

subsection \<open>Fields after each operation\<close>

lemma fetchNewImage_fields:
  "image_st (fetchNewImage w) = image_st w"
  "loading (fetchNewImage w) = True"
  "effect_deps (fetchNewImage w) = effect_deps w"
  "pending (fetchNewImage w) = pending w @ [length (requests w)]"
  "trace (fetchNewImage w) = trace w @ [SetLoading True, Fetch API_URL]"
  by (simp_all add: fetchNewImage_def fetch_def setLoading_def requests_def requests_of_append)

lemma FoxImage_fields:
  "image_st (FoxImage w) = image_st w"
  "effect_deps (FoxImage w) = Some []"
  "loading w \<Longrightarrow> loading (FoxImage w)"
  by (simp_all add: FoxImage_def useEffect_def fetchNewImage_fields)

lemma settle_failure_fields:
  assumes "chain out = Inl e"
  shows "image_st (settle out w) = image_st w"
    and "loading (settle out w) = loading w"
    and "effect_deps (settle out w) = effect_deps w"
    and "pending (settle out w) = pending w"
    and "trace (settle out w) = trace w @ [ConsoleLog e]"
  using assms by (simp_all add: settle_chain console_log_def)

lemma settle_success_fields:
  assumes "chain out = Inr v"
  shows "image_st (settle out w) = v"
    and "loading (settle out w) = False"
    and "effect_deps (settle out w) = effect_deps w"
    and "pending (settle out w) = pending w"
    and "trace (settle out w) = trace w @ [SetImage v, SetLoading False]"
  using assms by (simp_all add: settle_chain setImage_def setLoading_def)

subsection \<open>Events that do not write the image\<close>

lemma not_settle_not_succeeds: "\<not> is_settle e \<Longrightarrow> \<not> succeeds e"
  by (cases e) simp_all

lemma step_keeps_image: "\<not> succeeds e \<Longrightarrow> image_st (step e w) = image_st w"
  by (cases e)
    (auto simp: fetchNewImage_fields FoxImage_fields settle_failure_fields split: sum.splits)

lemma step_keeps_loading: "\<not> succeeds e \<Longrightarrow> loading w \<Longrightarrow> loading (step e w)"
  by (cases e)
    (auto simp: fetchNewImage_fields FoxImage_fields settle_failure_fields split: sum.splits)

lemma run_keeps_image: "\<forall>e\<in>set es. \<not> succeeds e \<Longrightarrow> image_st (run es w) = image_st w"
  by (induction es arbitrary: w) (simp_all add: step_keeps_image)

lemma run_keeps_loading: "\<forall>e\<in>set es. \<not> succeeds e \<Longrightarrow> loading w \<Longrightarrow> loading (run es w)"
  by (induction es arbitrary: w) (simp_all add: step_keeps_loading)

section \<open>Successful resolution\<close>

text \<open>
  Claim C1. Whenever \<^verbatim>\<open>fetchNewImage\<close> has been called and its request, still in
  flight after any further events \<open>es\<close>, is fulfilled with a success status and a
  JSON object whose \<^verbatim>\<open>image\<close> property is \<open>x\<close>, then after the resolution the image
  cell holds \<open>x\<close> and the loading cell is false.
\<close>

theorem success_sets_image_and_clears_loading:
  assumes "ok r" and "json r = Inr (JObj props)" and "map_of props ''image'' = Some x"
    and "length (requests w) \<in> set (pending (run es (fetchNewImage w)))"
  shows "image_st (step (Settle (length (requests w)) (Fulfilled r)) (run es (fetchNewImage w)))
           = Val x
       \<and> loading (step (Settle (length (requests w)) (Fulfilled r)) (run es (fetchNewImage w)))
           = False"
  using assms by (simp add: settle_success_fields [OF chain_image])

text \<open>
  The component has mounted, the user clicks and the component renders again; the
  click's request (the second one) returns \<^verbatim>\<open>{"image": "https://x/a.png"}\<close>.
\<close>

theorem success_sets_image_and_clears_loading_witness:
  "image_st (step (Settle 1 (Fulfilled (ok_response ''https://x/a.png'')))
      (run [Render] (fetchNewImage (run [Render] (instantiate ''fox-logo.png'')))))
     = Val (JStr ''https://x/a.png'')
   \<and> loading (step (Settle 1 (Fulfilled (ok_response ''https://x/a.png'')))
      (run [Render] (fetchNewImage (run [Render] (instantiate ''fox-logo.png'')))))
     = False"
  using success_sets_image_and_clears_loading
    [of "ok_response ''https://x/a.png''" "[(''image'', JStr ''https://x/a.png'')]"
      "JStr ''https://x/a.png''" "run [Render] (instantiate ''fox-logo.png'')" "[Render]"]
  by (simp add: eval_defs)

section \<open>Failing resolution\<close>

text \<open>
  Claim C2, as amended. Let a call of \<^verbatim>\<open>fetchNewImage\<close> end in an error \<open>e\<close>: the
  request is rejected, or the status is not a success, or the body is not JSON (or
  is \<^verbatim>\<open>null\<close>), see \<open>chain_network_failure\<close>, \<open>chain_bad_status\<close>,
  \<open>chain_parse_failure\<close> and \<open>chain_null_body\<close>. Then the failing resolution leaves
  the image cell and the loading cell as they were just before it, and its only
  action is one \<^verbatim>\<open>console.log\<close> of \<open>e\<close>. If moreover no request has resolved
  successfully since the call, the image cell holds the value it had before the
  call and the loading cell is still true.
\<close>

theorem failure_keeps_cells_and_only_logs:
  assumes "chain out = Inl e"
    and "length (requests w) \<in> set (pending (run es (fetchNewImage w)))"
  shows "image_st (step (Settle (length (requests w)) out) (run es (fetchNewImage w)))
           = image_st (run es (fetchNewImage w))
       \<and> loading (step (Settle (length (requests w)) out) (run es (fetchNewImage w)))
           = loading (run es (fetchNewImage w))
       \<and> trace (step (Settle (length (requests w)) out) (run es (fetchNewImage w)))
           = trace (run es (fetchNewImage w)) @ [ConsoleLog e]
       \<and> ((\<forall>ev\<in>set es. \<not> succeeds ev) \<longrightarrow>
            image_st (step (Settle (length (requests w)) out) (run es (fetchNewImage w)))
              = image_st w
          \<and> loading (step (Settle (length (requests w)) out) (run es (fetchNewImage w)))
              = True)"
proof -
  let ?w1 = "run es (fetchNewImage w)"
  let ?w2 = "step (Settle (length (requests w)) out) ?w1"
  have cells: "image_st ?w2 = image_st ?w1" "loading ?w2 = loading ?w1"
    and log: "trace ?w2 = trace ?w1 @ [ConsoleLog e]"
    using assms by (simp_all add: settle_failure_fields)
  have "image_st ?w1 = image_st w \<and> loading ?w1" if "\<forall>ev\<in>set es. \<not> succeeds ev"
    using that by (simp add: run_keeps_image run_keeps_loading fetchNewImage_fields)
  with cells log show ?thesis
    by simp
qed

text \<open>
  After the mount the user clicks; the mount's request then fails in the network
  and the click's request comes back with status 500. The logo is still shown,
  the flag is still up, and the console holds the two errors.
\<close>

theorem failure_keeps_cells_and_only_logs_witness:
  "image_st (step (Settle 1 (Fulfilled http_500))
      (run [Render, Settle 0 (Rejected TypeError)]
         (fetchNewImage (run [Render] (instantiate ''fox-logo.png'')))))
     = Val (JStr ''fox-logo.png'')
   \<and> loading (step (Settle 1 (Fulfilled http_500))
      (run [Render, Settle 0 (Rejected TypeError)]
         (fetchNewImage (run [Render] (instantiate ''fox-logo.png'')))))
     = True
   \<and> console (step (Settle 1 (Fulfilled http_500))
      (run [Render, Settle 0 (Rejected TypeError)]
         (fetchNewImage (run [Render] (instantiate ''fox-logo.png'')))))
     = [TypeError, Error ''Failed to fetch image'']"
  using failure_keeps_cells_and_only_logs
    [of "Fulfilled http_500" "Error ''Failed to fetch image''"
      "run [Render] (instantiate ''fox-logo.png'')" "[Render, Settle 0 (Rejected TypeError)]"]
  by (simp add: eval_defs)

text \<open>
  The claim as it is written fails when requests overlap. The component mounts
  (request 0) and the user clicks (request 1); request 0 returns an image and then
  request 1 returns status 500. The click's call has ended in an error, which is
  on the console, yet the image cell no longer holds the value it had before the
  click and the loading cell is false.
\<close>

theorem overlapping_failure_counterexample:
  "image_st (run [Render, Click, Settle 0 (Fulfilled (ok_response ''https://x/a.png'')),
                  Settle 1 (Fulfilled http_500)] (instantiate ''fox-logo.png''))
     \<noteq> image_st (run [Render] (instantiate ''fox-logo.png''))
   \<and> loading (run [Render, Click, Settle 0 (Fulfilled (ok_response ''https://x/a.png'')),
                  Settle 1 (Fulfilled http_500)] (instantiate ''fox-logo.png''))
     = False
   \<and> console (run [Render, Click, Settle 0 (Fulfilled (ok_response ''https://x/a.png'')),
                  Settle 1 (Fulfilled http_500)] (instantiate ''fox-logo.png''))
     = [Error ''Failed to fetch image'']"
  by (simp add: eval_defs)

section \<open>The loading flag and the request in flight\<close>

text \<open>
  Claim C3 says that the loading cell is true exactly while a request is
  outstanding, also after a failing resolution. The component mounts and its
  request returns status 500: no request is in flight any more, and the loading
  cell is still true.
\<close>

theorem loading_stuck_after_failure:
  "loading (run [Render, Settle 0 (Fulfilled http_500)] (instantiate ''fox-logo.png'')) = True
   \<and> pending (run [Render, Settle 0 (Fulfilled http_500)] (instantiate ''fox-logo.png'')) = []"
  by (simp add: eval_defs)

section \<open>Render\<close>

text \<open>
  Claim C4. The paragraph with the text \<^verbatim>\<open> Loading...\<close> is among the children of
  the rendered \<^verbatim>\<open>div\<close> exactly when the loading cell is not true; while it is true,
  the empty text stands in its place, the second child. What is rendered is a
  function of the two cells alone: nothing else of the state changes it.
\<close>

theorem render_pure_and_indicator_when_not_loading:
  "(VElem ''p'' [] [VText '' Loading...''] \<in> set (children (render w)) \<longleftrightarrow> \<not> loading w)
   \<and> children (render w) ! 1
       = (if loading w then VText '''' else VElem ''p'' [] [VText '' Loading...''])
   \<and> render (w\<lparr>effect_deps := d, pending := p, trace := t\<rparr>) = render w"
  by (simp add: render_def view_def)

section \<open>Mount\<close>

text \<open>
  Claim C5. From the instantiation of the component on, through the first render
  and any renders and clicks after it, as long as no request has settled the image
  cell holds the bundled logo and the loading cell is true.
\<close>

theorem initial_state_until_first_response:
  assumes "\<forall>e\<in>set es. \<not> is_settle e"
  shows "image_st (run es (instantiate foxLogo)) = Val (JStr foxLogo)
       \<and> loading (run es (instantiate foxLogo)) = True"
proof -
  have "\<forall>e\<in>set es. \<not> succeeds e"
    using assms by (simp add: not_settle_not_succeeds)
  then show ?thesis
    by (simp add: run_keeps_image run_keeps_loading instantiate_def)
qed

theorem initial_state_until_first_response_witness:
  "image_st (run [Render, Render, Click] (instantiate ''fox-logo.png'')) = Val (JStr ''fox-logo.png'')
   \<and> loading (run [Render, Render, Click] (instantiate ''fox-logo.png'')) = True"
  using initial_state_until_first_response [of "[Render, Render, Click]" "''fox-logo.png''"]
  by simp

text \<open>
  Once the effect has run, no event runs it again; a click makes one network call,
  a render or a settling makes none.
\<close>

lemma step_mounted:
  assumes "effect_deps w = Some []"
  shows "effect_deps (step e w) = Some []"
    and "effect_runs (step e w) = effect_runs w"
    and "length (requests (step e w)) = length (requests w) + (if e = Click then 1 else 0)"
proof -
  show "effect_deps (step e w) = Some []"
    using assms
    by (cases e)
      (simp_all add: FoxImage_def useEffect_def fetchNewImage_fields settle_chain
        console_log_def setImage_def setLoading_def split: sum.split)
  show "effect_runs (step e w) = effect_runs w"
    using assms
    by (cases e)
      (simp_all add: effect_runs_def effects_of_append FoxImage_def useEffect_def
        fetchNewImage_fields settle_chain console_log_def setImage_def setLoading_def
        split: sum.split)
  show "length (requests (step e w)) = length (requests w) + (if e = Click then 1 else 0)"
    using assms
    by (cases e)
      (simp_all add: requests_def requests_of_append FoxImage_def useEffect_def
        fetchNewImage_fields settle_chain console_log_def setImage_def setLoading_def
        split: sum.split)
qed

lemma run_mounted:
  "effect_deps w = Some [] \<Longrightarrow>
   effect_runs (run es w) = effect_runs w
   \<and> length (requests (run es w)) = length (requests w) + count_list es Click"
  by (induction es arbitrary: w) (simp_all add: step_mounted)

lemma first_render:
  "effect_deps (step Render (instantiate foxLogo)) = Some []"
  "effect_runs (step Render (instantiate foxLogo)) = 1"
  "requests (step Render (instantiate foxLogo)) = [API_URL]"
  by (simp_all add: eval_defs)

text \<open>
  Claim C6. Before the first render the effect has not run. After the first render
  and any events \<open>es\<close> whatever (renders among them), the effect callback
  \<^verbatim>\<open>fetchNewImage\<close> has run exactly once; the network calls made are that one and
  one for each click.
\<close>

theorem effect_runs_once_at_mount:
  "effect_runs (instantiate foxLogo) = 0
   \<and> effect_runs (run (Render # es) (instantiate foxLogo)) = 1
   \<and> length (requests (run (Render # es) (instantiate foxLogo))) = 1 + count_list es Click"
proof -
  have "effect_runs (instantiate foxLogo) = 0"
    by (simp add: effect_runs_def instantiate_def)
  moreover have "run (Render # es) (instantiate foxLogo) = run es (step Render (instantiate foxLogo))"
    by simp
  ultimately show ?thesis
    using run_mounted [OF first_render(1)] by (simp only: first_render) simp
qed

section \<open>The fetch operation\<close>

text \<open>
  Claim C7. A call of \<^verbatim>\<open>fetchNewImage\<close> does two things, in this order: it sets the
  loading cell to true, then it makes one network call, to the fixed endpoint. The
  list of network calls grows by exactly that one, and the settling of a request
  adds none.
\<close>

theorem fetch_sets_loading_then_one_request:
  "trace (fetchNewImage w) = trace w @ [SetLoading True, Fetch API_URL]
   \<and> loading (fetchNewImage w) = True
   \<and> requests (fetchNewImage w) = requests w @ [API_URL]
   \<and> requests (step (Settle rid out) w) = requests w"
  by (simp add: fetchNewImage_fields requests_def requests_of_append settle_chain console_log_def
      setImage_def setLoading_def split: sum.split)

section \<open>The manual trigger\<close>

text \<open>
  Claim C8, as amended. A click on the button of the mounted component makes
  exactly one new network call, and the image cell keeps the value it had before
  the click through all later events, as long as none of them is the successful
  resolution of a request.
\<close>

theorem click_one_request_image_kept:
  assumes "effect_deps w \<noteq> None" and "\<forall>ev\<in>set es. \<not> succeeds ev"
  shows "requests (step Click w) = requests w @ [API_URL]
       \<and> image_st (run es (step Click w)) = image_st w"
  using assms by (simp add: run_keeps_image fetchNewImage_fields requests_def requests_of_append)

theorem click_one_request_image_kept_witness:
  "requests (step Click (run [Render] (instantiate ''fox-logo.png''))) = [API_URL, API_URL]
   \<and> image_st (run [Render, Click, Settle 0 (Fulfilled http_500)]
        (step Click (run [Render] (instantiate ''fox-logo.png'')))) = Val (JStr ''fox-logo.png'')"
  using click_one_request_image_kept
    [of "run [Render] (instantiate ''fox-logo.png'')" "[Render, Click, Settle 0 (Fulfilled http_500)]"]
  by (simp add: eval_defs)

text \<open>
  The claim as it is written fails when the click comes while an earlier request
  is in flight. The component mounts (request 0), the user clicks (request 1) and
  request 0 returns an image: request 1 has not resolved, and the image cell has
  already left the value it had before the click.
\<close>

theorem click_image_changes_before_resolution_counterexample:
  "image_st (run [Render, Click, Settle 0 (Fulfilled (ok_response ''https://x/a.png''))]
       (instantiate ''fox-logo.png''))
     \<noteq> image_st (run [Render] (instantiate ''fox-logo.png''))
   \<and> pending (run [Render, Click, Settle 0 (Fulfilled (ok_response ''https://x/a.png''))]
       (instantiate ''fox-logo.png'')) = [1]"
  by (simp add: eval_defs)

section \<open>Repeated identical responses\<close>

lemma invocation_image:
  assumes "chain (Fulfilled r) = Inr v"
  shows "image_st (invocation r w) = v"
  using assms by (simp add: invocation_def fetchNewImage_fields settle_success_fields)

lemma step_carries:
  assumes "chain (Fulfilled r) = Inr v" and "carries r e" and "image_st w = v"
  shows "image_st (step e w) = v"
  using assms
  by (cases e) (auto simp: fetchNewImage_fields FoxImage_fields settle_success_fields)

lemma run_carries:
  "chain (Fulfilled r) = Inr v \<Longrightarrow> \<forall>e\<in>set es. carries r e \<Longrightarrow> image_st w = v \<Longrightarrow>
   image_st (run es w) = v"
  by (induction es arbitrary: w) (simp_all add: step_carries)

text \<open>
  Claim C9. Let \<open>r\<close> be a successful response whose body has \<^verbatim>\<open>image\<close> \<open>x\<close>. After
  each of any number of invocations that are answered with \<open>r\<close>, the image cell
  holds \<open>x\<close>. And once it holds \<open>x\<close>, it keeps holding \<open>x\<close> through any renders,
  clicks and resolutions, in any order, whose responses are all \<open>r\<close>.
\<close>

theorem identical_responses_idempotent:
  assumes "ok r" and "json r = Inr (JObj props)" and "map_of props ''image'' = Some x"
  shows "image_st ((invocation r ^^ Suc n) w) = Val x
       \<and> (image_st w = Val x \<and> (\<forall>e\<in>set es. carries r e) \<longrightarrow> image_st (run es w) = Val x)"
  using chain_image [OF assms] by (simp add: invocation_image run_carries)

theorem identical_responses_idempotent_witness:
  "image_st ((invocation (ok_response ''https://x/a.png'') ^^ 3)
       (invocation (ok_response ''https://x/a.png'') (run [Render] (instantiate ''fox-logo.png''))))
     = Val (JStr ''https://x/a.png'')
   \<and> image_st (run [Click, Click, Settle 3 (Fulfilled (ok_response ''https://x/a.png'')), Render,
                   Settle 2 (Fulfilled (ok_response ''https://x/a.png''))]
       (invocation (ok_response ''https://x/a.png'') (run [Render] (instantiate ''fox-logo.png''))))
     = Val (JStr ''https://x/a.png'')"
  using identical_responses_idempotent
    [of "ok_response ''https://x/a.png''" "[(''image'', JStr ''https://x/a.png'')]"
      "JStr ''https://x/a.png''" 2
      "invocation (ok_response ''https://x/a.png'') (run [Render] (instantiate ''fox-logo.png''))"
      "[Click, Click, Settle 3 (Fulfilled (ok_response ''https://x/a.png'')), Render,
        Settle 2 (Fulfilled (ok_response ''https://x/a.png''))]"]
  by (simp add: eval_defs invocation_def numeral_3_eq_3)

section \<open>A body without the field\<close>

text \<open>
  Claim C10. When the request of a call of \<^verbatim>\<open>fetchNewImage\<close> is fulfilled with a
  success status and a JSON object that has no \<^verbatim>\<open>image\<close> property, the success
  path is taken: the image cell becomes \<^verbatim>\<open>undefined\<close>, the loading cell becomes
  false, and nothing is written to the console.
\<close>

theorem missing_image_field_is_success:
  assumes "ok r" and "json r = Inr (JObj props)" and "map_of props ''image'' = None"
    and "length (requests w) \<in> set (pending (run es (fetchNewImage w)))"
  shows "image_st (step (Settle (length (requests w)) (Fulfilled r)) (run es (fetchNewImage w)))
           = Undefined
       \<and> loading (step (Settle (length (requests w)) (Fulfilled r)) (run es (fetchNewImage w)))
           = False
       \<and> console (step (Settle (length (requests w)) (Fulfilled r)) (run es (fetchNewImage w)))
           = console (run es (fetchNewImage w))
       \<and> trace (step (Settle (length (requests w)) (Fulfilled r)) (run es (fetchNewImage w)))
           = trace (run es (fetchNewImage w)) @ [SetImage Undefined, SetLoading False]"
  using assms
  by (simp add: settle_success_fields [OF chain_no_image] console_def console_of_append)

theorem missing_image_field_is_success_witness:
  "image_st (step (Settle 1 (Fulfilled \<lparr>ok = True, json = Inr (JObj [(''link'', JStr ''https://x/'')])\<rparr>))
       (run [Render] (fetchNewImage (run [Render] (instantiate ''fox-logo.png''))))) = Undefined
   \<and> loading (step (Settle 1 (Fulfilled \<lparr>ok = True, json = Inr (JObj [(''link'', JStr ''https://x/'')])\<rparr>))
       (run [Render] (fetchNewImage (run [Render] (instantiate ''fox-logo.png''))))) = False
   \<and> console (step (Settle 1 (Fulfilled \<lparr>ok = True, json = Inr (JObj [(''link'', JStr ''https://x/'')])\<rparr>))
       (run [Render] (fetchNewImage (run [Render] (instantiate ''fox-logo.png''))))) = []"
  using missing_image_field_is_success
    [of "\<lparr>ok = True, json = Inr (JObj [(''link'', JStr ''https://x/'')])\<rparr>"
      "[(''link'', JStr ''https://x/'')]" "run [Render] (instantiate ''fox-logo.png'')" "[Render]"]
  by (simp add: eval_defs)

end
